theory Spec2Isabelle
  imports Main
begin

section \<open>Values shared by both programs\<close>

text \<open>
  \<^verbatim>\<open>Field\<close> of o1js is an element of the base field of the Pallas curve: a natural number
  below the prime \<^verbatim>\<open>Field.ORDER\<close>. The type holds the reduced values only, and the
  arithmetic writes the reduction out.
\<close>

definition Field_ORDER :: nat where
  "Field_ORDER = 28948022309329048855892746252171976963363056481941560715954676764349967630337"

typedef Field = "{n::nat. n < Field_ORDER}"
  by (rule exI [of _ 0]) (simp add: Field_ORDER_def)

setup_lifting type_definition_Field

text \<open>\<^verbatim>\<open>Field(x)\<close> and \<^verbatim>\<open>Field.fromValue(x)\<close> on a bigint, \<^verbatim>\<open>a.add(b)\<close>, \<^verbatim>\<open>a.mul(b)\<close>, \<^verbatim>\<open>a.toBigInt()\<close>.\<close>

lift_definition Field_from :: "int \<Rightarrow> Field" is "\<lambda>x. nat (x mod int Field_ORDER)"
  by (simp add: Field_ORDER_def nat_less_iff)

lift_definition Field_add :: "Field \<Rightarrow> Field \<Rightarrow> Field" is "\<lambda>a b. (a + b) mod Field_ORDER"
  by (simp add: Field_ORDER_def)

lift_definition Field_mul :: "Field \<Rightarrow> Field \<Rightarrow> Field" is "\<lambda>a b. (a * b) mod Field_ORDER"
  by (simp add: Field_ORDER_def)

lift_definition Field_toBigInt :: "Field \<Rightarrow> int" is "\<lambda>a. int a" .

text \<open>\<^verbatim>\<open>VerificationKey\<close>: the struct \<^verbatim>\<open>{ data: string, hash: Field }\<close>.\<close>

record VerificationKey =
  data :: string
  hash :: Field

text \<open>
  \<^verbatim>\<open>Proof<In, Out>\<close> and \<^verbatim>\<open>DynamicProof<In, Out>\<close>: a public input, a public output, the
  proof payload, whose type \<open>'p\<close> stays opaque, and the width of the proof, the
  \<^verbatim>\<open>maxProofsVerified\<close> of the program that made it.
\<close>

record ('i, 'o, 'p) Proof =
  publicInput :: 'i
  publicOutput :: 'o
  proof_data :: 'p
  maxProofsVerified :: nat

text \<open>
  The operations the programs import from o1js and that stay opaque here, passed around
  as one record:
  \<^item> \<open>Poseidon_hash\<close> is \<^verbatim>\<open>Poseidon.hash\<close>;
  \<^item> \<open>VerificationKey_toFields\<close> is \<^verbatim>\<open>VerificationKey.toFields\<close>;
  \<^item> \<open>compile\<close> gives the verification key of the program of that name;
  \<^item> \<open>prove\<close> gives the payload of the proof of a program's method (program name,
    method name) for a statement (the fields of the public input and of the public output);
  \<^item> \<open>verify\<close> decides whether a payload proves a statement under a verification key;
  \<^item> \<open>dummy_data\<close> is the payload of \<^verbatim>\<open>dummy\<close>, from \<^verbatim>\<open>maxProofsVerified\<close>.
\<close>

record 'p Backend =
  Poseidon_hash :: "Field list \<Rightarrow> Field"
  VerificationKey_toFields :: "VerificationKey \<Rightarrow> Field list"
  compile :: "string \<Rightarrow> VerificationKey"
  prove :: "string \<Rightarrow> string \<Rightarrow> Field list \<Rightarrow> Field list \<Rightarrow> 'p"
  verify :: "Field list \<Rightarrow> Field list \<Rightarrow> 'p \<Rightarrow> VerificationKey \<Rightarrow> bool"
  dummy_data :: "nat \<Rightarrow> 'p"

text \<open>
  A failed assertion or a failed verification aborts the construction of the enclosing
  proof. The source raises with a message at most; the names are those of the design's
  error taxonomy, one per check:
  \<^item> \<open>UntrustedKey\<close>: the supplied verification key is not the trusted one, or not in the tree;
  \<^item> \<open>ProofInvalid\<close>: a proof handed to the method does not verify under its key;
  \<^item> \<open>CapabilityMismatch\<close>: a proof handed to the method has not the shape its class
    declares;
  \<^item> \<open>SlotOccupied\<close>: \<^verbatim>\<open>'Provided merklewitness not correct or leaf not empty'\<close>;
  \<^item> \<open>ContinuityBroken\<close>: the previous proof's output is not the supplied state;
  \<^item> \<open>ConstraintViolation\<close>: any other assertion of a method.
\<close>

datatype Error =
  UntrustedKey | ProofInvalid | CapabilityMismatch | SlotOccupied | ContinuityBroken
  | ConstraintViolation

text \<open>
  Modelled from the spec: what o1js, which is not under the sources, does with a proof
  that a method was handed. A proof class declares the shape of its proofs in advance
  (\<^verbatim>\<open>static maxProofsVerified\<close>), and a proof of another shape is refused with
  \<open>CapabilityMismatch\<close>, whether or not it is then verified. A proof that is to be
  verified must verify under the key, or the step fails with \<open>ProofInvalid\<close>; when the
  verification is skipped, the backend is not asked. The method's own assertions run
  first: \<^verbatim>\<open>verify\<close> and \<^verbatim>\<open>verifyIf\<close> only mark the proof, and the proofs are checked when the
  step itself is proved.
\<close>

definition checkProof ::
  "'p Backend \<Rightarrow> nat \<Rightarrow> Field list \<Rightarrow> Field list \<Rightarrow> ('i, 'o, 'p) Proof \<Rightarrow> VerificationKey
     \<Rightarrow> bool \<Rightarrow> Error option" where
  "checkProof L declared pubIn pubOut prf vk shouldVerify =
     (if maxProofsVerified prf \<noteq> declared then Some CapabilityMismatch
      else if shouldVerify
        then (if verify L pubIn pubOut (proof_data prf) vk then None else Some ProofInvalid)
        else None)"

text \<open>\<^verbatim>\<open>Proof.dummy(publicInput, publicOutput, maxProofsVerified)\<close>.\<close>

definition dummy :: "'p Backend \<Rightarrow> 'i \<Rightarrow> 'o \<Rightarrow> nat \<Rightarrow> ('i, 'o, 'p) Proof" where
  "dummy L pubIn pubOut width =
     \<lparr>publicInput = pubIn, publicOutput = pubOut, proof_data = dummy_data L width,
      maxProofsVerified = width\<rparr>"

text \<open>\<^verbatim>\<open>fromProof(proof)\<close> of a dynamic proof class keeps the statement, the payload and the width.\<close>

definition fromProof :: "('i, 'o, 'p) Proof \<Rightarrow> ('i, 'o, 'p) Proof" where
  "fromProof prf =
     \<lparr>publicInput = publicInput prf, publicOutput = publicOutput prf, proof_data = proof_data prf,
      maxProofsVerified = maxProofsVerified prf\<rparr>"

section \<open>The addition program with one trusted key\<close>

text \<open>\<^verbatim>\<open>const trustedMulVkHash = Field.fromValue(8142...797n)\<close>, "calculated from a previous run".\<close>

definition trustedMulVkHash :: Field where
  "trustedMulVkHash =
     Field_from 8142940553167082449842668986851829272657527115204486450531957647731361130797"

text \<open>
  \<^verbatim>\<open>class DynamicMultiplyProof extends DynamicProof<Undefined, Field>\<close>, with
  \<^verbatim>\<open>static maxProofsVerified = 0\<close>: the public input has no fields.
\<close>

type_synonym 'p DynamicMultiplyProof = "(unit, Field, 'p) Proof"

definition DynamicMultiplyProof_maxProofsVerified :: nat where
  "DynamicMultiplyProof_maxProofsVerified = 0"

text \<open>
  Modelled from the spec: \<^verbatim>\<open>proof.verifyIf(vk, condition)\<close> of o1js, the conditional
  verification of the design. The proof must have the declared shape; it must verify
  under \<open>vk\<close> when the condition holds, and is not verified otherwise.
\<close>

definition verifyIf ::
  "'p Backend \<Rightarrow> 'p DynamicMultiplyProof \<Rightarrow> VerificationKey \<Rightarrow> bool \<Rightarrow> Error option" where
  "verifyIf L prf vk condition =
     checkProof L DynamicMultiplyProof_maxProofsVerified [] [publicOutput prf] prf vk condition"

text \<open>
  The method \<^verbatim>\<open>performAddition\<close> of the program \<^verbatim>\<open>add\<close>: the hash of the key's fields is
  asserted equal to the trusted hash, the wrapped proof is verified unless its output is
  zero, and the result is the wrapped output plus \<open>field\<close>.
\<close>

definition performAddition ::
  "'p Backend \<Rightarrow> Field \<Rightarrow> 'p DynamicMultiplyProof \<Rightarrow> VerificationKey \<Rightarrow> Error + Field" where
  "performAddition L field prf vk =
     (let vkFields = VerificationKey_toFields L vk;
          vkHash = Poseidon_hash L vkFields
      in if vkHash \<noteq> trustedMulVkHash then Inl UntrustedKey
         else
           (let multiplyResult = publicOutput prf
            in (case verifyIf L prf vk (\<not> (multiplyResult = Field_from 0)) of
                  Some e \<Rightarrow> Inl e
                | None \<Rightarrow>
                    (let additionResult = Field_add multiplyResult field
                     in Inr additionResult))))"

text \<open>The method \<^verbatim>\<open>performMultiplication\<close> of the program \<^verbatim>\<open>multiply\<close>.\<close>

definition performMultiplication :: "Field \<Rightarrow> Field \<Rightarrow> Field" where
  "performMultiplication field1 field2 =
     (let multiplicationResult = Field_mul field1 field2 in multiplicationResult)"

text \<open>
  Calling a method of a program proves it: the method runs, and when it returns, the
  result is a proof of the statement it computed. The width of a program's proofs is the
  largest number of proofs one of its methods takes: one for \<^verbatim>\<open>add\<close>, none for
  \<^verbatim>\<open>multiply\<close>.
\<close>

definition add_performAddition ::
  "'p Backend \<Rightarrow> Field \<Rightarrow> 'p DynamicMultiplyProof \<Rightarrow> VerificationKey
     \<Rightarrow> Error + (unit, Field, 'p) Proof" where
  "add_performAddition L field prf vk =
     (case performAddition L field prf vk of
        Inl e \<Rightarrow> Inl e
      | Inr out \<Rightarrow>
          Inr \<lparr>publicInput = (), publicOutput = out,
               proof_data = prove L ''add'' ''performAddition'' [] [out],
               maxProofsVerified = 1\<rparr>)"

definition multiply_performMultiplication ::
  "'p Backend \<Rightarrow> Field \<Rightarrow> Field \<Rightarrow> (unit, Field, 'p) Proof" where
  "multiply_performMultiplication L field1 field2 =
     (let out = performMultiplication field1 field2
      in \<lparr>publicInput = (), publicOutput = out,
          proof_data = prove L ''multiply'' ''performMultiplication'' [] [out],
          maxProofsVerified = 0\<rparr>)"

text \<open>
  The script below the two programs: compile, prove the base case on a dummy proof, prove
  a multiplication, prove the second addition on the multiplication's proof. The three
  proofs are returned; what the script prints is left out.
\<close>

definition driver ::
  "'p Backend
     \<Rightarrow> Error + ((unit, Field, 'p) Proof \<times> (unit, Field, 'p) Proof \<times> (unit, Field, 'p) Proof)" where
  "driver L =
     (let mulVk = compile L ''multiply'';
          dummyProof = dummy L () (Field_from 0) 0
      in (case add_performAddition L (Field_from 5) dummyProof mulVk of
            Inl e \<Rightarrow> Inl e
          | Inr baseCase \<Rightarrow>
              (let multiply1 = multiply_performMultiplication L (Field_from 3) (Field_from 3)
               in (case add_performAddition L (Field_from 4) (fromProof multiply1) mulVk of
                     Inl e \<Rightarrow> Inl e
                   | Inr add2 \<Rightarrow> Inr (baseCase, multiply1, add2)))))"

section \<open>The main program with a tree of keys\<close>

text \<open>\<^verbatim>\<open>class MainProgramState extends Struct({ treeRoot: Field, state: Field })\<close>.\<close>

record MainProgramState =
  treeRoot :: Field
  state :: Field

text \<open>
  Modelled from the spec: the Merkle witness and the Merkle tree of o1js, which the source
  imports and does not define. A witness is an authentication path, one sibling hash and
  one direction bit per level; \<open>calculateRoot\<close> recomputes what the root would be if the
  leaf held the given value, hashing sibling pairs bottom-up.
\<close>

type_synonym Witness = "(bool \<times> Field) list"

fun calculateRoot :: "'p Backend \<Rightarrow> Witness \<Rightarrow> Field \<Rightarrow> Field" where
  "calculateRoot L [] h = h"
| "calculateRoot L ((isLeft, sibling) # path) h =
     calculateRoot L path (Poseidon_hash L (if isLeft then [h, sibling] else [sibling, h]))"

text \<open>
  Modelled from the spec: a tree of fixed depth \<open>D\<close> with \<open>2 ^ D\<close> leaves, each a field
  element, \<open>EMPTY\<close> (field zero) where nothing was stored; the node at a level is the
  hash of its two children; the root is the one node at level \<open>D\<close>.
\<close>

definition EMPTY :: Field where
  "EMPTY = Field_from 0"

record MerkleTree =
  depth :: nat
  leaves :: "nat \<Rightarrow> Field"

definition MerkleTree_new :: "nat \<Rightarrow> MerkleTree" where
  "MerkleTree_new D = \<lparr>depth = D, leaves = (\<lambda>index. EMPTY)\<rparr>"

fun getNode :: "'p Backend \<Rightarrow> (nat \<Rightarrow> Field) \<Rightarrow> nat \<Rightarrow> nat \<Rightarrow> Field" where
  "getNode L lv 0 index = lv index"
| "getNode L lv (Suc level) index =
     Poseidon_hash L [getNode L lv level (2 * index), getNode L lv level (2 * index + 1)]"

definition getRoot :: "'p Backend \<Rightarrow> MerkleTree \<Rightarrow> Field" where
  "getRoot L T = getNode L (leaves T) (depth T) 0"

definition setLeaf :: "MerkleTree \<Rightarrow> nat \<Rightarrow> Field \<Rightarrow> MerkleTree" where
  "setLeaf T index leaf = T\<lparr>leaves := (leaves T)(index := leaf)\<rparr>"

text \<open>
  The witness of a leaf index: level by level, whether the node on the path is a left
  child, and its sibling; then the same for the parent, \<open>n\<close> levels in all.
\<close>

fun witnessFrom :: "'p Backend \<Rightarrow> (nat \<Rightarrow> Field) \<Rightarrow> nat \<Rightarrow> nat \<Rightarrow> nat \<Rightarrow> Witness" where
  "witnessFrom L lv level 0 index = []"
| "witnessFrom L lv level (Suc n) index =
     (let isLeft = (index mod 2 = 0);
          sibling = getNode L lv level (if isLeft then index + 1 else index - 1)
      in (isLeft, sibling) # witnessFrom L lv (Suc level) n (index div 2))"

definition getWitness :: "'p Backend \<Rightarrow> MerkleTree \<Rightarrow> nat \<Rightarrow> Witness" where
  "getWitness L T index = witnessFrom L (leaves T) 0 (depth T) index"

text \<open>
  The inputs \<open>calculateRoot\<close> hashes on its way from a leaf value to the root. The hash is
  collision-resistant by assumption; a theorem that needs it assumes that the hash is
  injective on the inputs of the two paths it compares.
\<close>

fun hashInputs :: "'p Backend \<Rightarrow> Witness \<Rightarrow> Field \<Rightarrow> Field list list" where
  "hashInputs L [] h = []"
| "hashInputs L ((isLeft, sibling) # path) h =
     (let input = (if isLeft then [h, sibling] else [sibling, h])
      in input # hashInputs L path (Poseidon_hash L input))"

text \<open>
  \<^verbatim>\<open>class SideloadedProgramProof extends DynamicProof<Field, Field>\<close>, with
  \<^verbatim>\<open>static maxProofsVerified = 0\<close>.
\<close>

type_synonym 'p SideloadedProgramProof = "(Field, Field, 'p) Proof"

definition SideloadedProgramProof_maxProofsVerified :: nat where
  "SideloadedProgramProof_maxProofsVerified = 0"

text \<open>
  Modelled from the spec: \<^verbatim>\<open>proof.verify(vk)\<close> of o1js. The proof must have the declared
  shape and verify under \<open>vk\<close>.
\<close>

definition SideloadedProgramProof_verify ::
  "'p Backend \<Rightarrow> 'p SideloadedProgramProof \<Rightarrow> VerificationKey \<Rightarrow> Error option" where
  "SideloadedProgramProof_verify L prf vk =
     checkProof L SideloadedProgramProof_maxProofsVerified [publicInput prf] [publicOutput prf]
       prf vk True"

text \<open>
  Modelled from the spec: the \<^verbatim>\<open>SelfProof\<close> among the private inputs of a method, of o1js.
  Every step but the first carries a verified link to its predecessor: the previous proof
  must be a proof of \<^verbatim>\<open>mainProgram\<close> itself, of the width of \<^verbatim>\<open>mainProgram\<close> (two, for the
  two proofs \<^verbatim>\<open>validateUsingTree\<close> takes), and verify under the key of \<^verbatim>\<open>mainProgram\<close>.
  The fields of a \<^verbatim>\<open>MainProgramState\<close> are its root and its state, in the order of the struct.
\<close>

definition MainProgramState_toFields :: "MainProgramState \<Rightarrow> Field list" where
  "MainProgramState_toFields s = [treeRoot s, state s]"

definition mainProgram_maxProofsVerified :: nat where
  "mainProgram_maxProofsVerified = 2"

definition SelfProof_verify ::
  "'p Backend \<Rightarrow> (MainProgramState, MainProgramState, 'p) Proof \<Rightarrow> Error option" where
  "SelfProof_verify L previous =
     checkProof L mainProgram_maxProofsVerified
       (MainProgramState_toFields (publicInput previous))
       (MainProgramState_toFields (publicOutput previous))
       previous (compile L ''mainProgram'') True"

text \<open>
  The method \<^verbatim>\<open>addSideloadedProgram\<close> of \<^verbatim>\<open>mainProgram\<close>: the witness must recompute the
  input's root from the empty leaf; the new root is what it recomputes from the key's
  hash; the state is copied.
\<close>

definition addSideloadedProgram ::
  "'p Backend \<Rightarrow> MainProgramState \<Rightarrow> VerificationKey \<Rightarrow> Witness \<Rightarrow> Error + MainProgramState" where
  "addSideloadedProgram L input vk merkleWitness =
     (let currentRoot = calculateRoot L merkleWitness (Field_from 0)
      in if treeRoot input \<noteq> currentRoot then Inl SlotOccupied
         else
           (let newRoot = calculateRoot L merkleWitness (hash vk)
            in Inr \<lparr>treeRoot = newRoot, state = state input\<rparr>))"

text \<open>
  The method \<^verbatim>\<open>validateUsingTree\<close> of \<^verbatim>\<open>mainProgram\<close>: its assertions in the order of the
  source, then the two proofs it was handed, the previous proof of \<^verbatim>\<open>mainProgram\<close> and the
  child proof marked by \<^verbatim>\<open>proof.verify(vk)\<close>.
\<close>

definition validateUsingTree ::
  "'p Backend \<Rightarrow> MainProgramState \<Rightarrow> (MainProgramState, MainProgramState, 'p) Proof
     \<Rightarrow> VerificationKey \<Rightarrow> Witness \<Rightarrow> 'p SideloadedProgramProof \<Rightarrow> Error + MainProgramState" where
  "validateUsingTree L input previous vk merkleWitness prf =
     (if state (publicOutput previous) \<noteq> state input then Inl ContinuityBroken
      else if treeRoot (publicOutput previous) \<noteq> treeRoot input then Inl ContinuityBroken
      else
        (let computedRoot = calculateRoot L merkleWitness (hash vk)
         in if treeRoot input \<noteq> computedRoot then Inl UntrustedKey
            else if publicInput prf \<noteq> state input then Inl ConstraintViolation
            else
              (let newState = publicOutput prf
               in (case SelfProof_verify L previous of
                     Some e \<Rightarrow> Inl e
                   | None \<Rightarrow>
                       (case SideloadedProgramProof_verify L prf vk of
                          Some e \<Rightarrow> Inl e
                        | None \<Rightarrow> Inr \<lparr>treeRoot = treeRoot input, state = newState\<rparr>)))))"

section \<open>An instance of the opaque operations\<close>

text \<open>
  A small instance on which the model runs: payloads are numbers, \<open>1\<close> the genuine proof
  and \<open>0\<close> the dummy; a key's fields are its hash; the hash of one field is that field and
  the hash of a pair \<open>[a, b]\<close> is \<open>a + 3 * b + 1\<close>; the key of \<^verbatim>\<open>multiply\<close> hashes to the
  trusted hash.
\<close>

definition exampleHash :: "Field list \<Rightarrow> Field" where
  "exampleHash xs =
     (case xs of
        [a] \<Rightarrow> a
      | [a, b] \<Rightarrow> Field_add (Field_add a (Field_mul (Field_from 3) b)) (Field_from 1)
      | _ \<Rightarrow> Field_from 0)"

definition exampleBackend :: "nat Backend" where
  "exampleBackend =
     \<lparr>Poseidon_hash = exampleHash,
      VerificationKey_toFields = (\<lambda>vk. [hash vk]),
      compile = (\<lambda>name. if name = ''multiply'' then \<lparr>data = ''mul'', hash = trustedMulVkHash\<rparr>
                         else \<lparr>data = name, hash = Field_from 7\<rparr>),
      prove = (\<lambda>program method pubIn pubOut. 1),
      verify = (\<lambda>pubIn pubOut payload vk. payload = 1),
      dummy_data = (\<lambda>maxProofsVerified. 0)\<rparr>"

text \<open>
  A tree of depth two with every leaf empty, and a key whose hash is 11: the witness of
  leaf 1 is the empty leaf 0 on its left and the hash of the empty leaves 2 and 3 on its
  right.
\<close>

definition exampleTree :: MerkleTree where
  "exampleTree = MerkleTree_new (Suc (Suc 0))"

definition exampleKey :: VerificationKey where
  "exampleKey = \<lparr>data = ''child'', hash = Field_from 11\<rparr>"

section \<open>Field arithmetic\<close>

lemma toBigInt_from: "Field_toBigInt (Field_from x) = x mod int Field_ORDER"
  by transfer (simp add: Field_ORDER_def)

lemma toBigInt_add:
  "Field_toBigInt (Field_add a b) = (Field_toBigInt a + Field_toBigInt b) mod int Field_ORDER"
  by transfer (simp add: zmod_int)

lemma toBigInt_mul:
  "Field_toBigInt (Field_mul a b) = (Field_toBigInt a * Field_toBigInt b) mod int Field_ORDER"
  by transfer (simp add: zmod_int)

lemma Field_eq_iff: "a = b \<longleftrightarrow> Field_toBigInt a = Field_toBigInt b"
  by transfer simp

lemma Field_from_eq_iff:
  "Field_from x = Field_from y \<longleftrightarrow> x mod int Field_ORDER = y mod int Field_ORDER"
  by (simp add: Field_eq_iff toBigInt_from)

lemma Field_add_from: "Field_add (Field_from x) (Field_from y) = Field_from (x + y)"
  by (simp add: Field_eq_iff toBigInt_from toBigInt_add mod_add_eq)

lemma Field_mul_from: "Field_mul (Field_from x) (Field_from y) = Field_from (x * y)"
  by (simp add: Field_eq_iff toBigInt_from toBigInt_mul mod_mult_eq)


lemmas Field_eval = Field_add_from Field_mul_from Field_from_eq_iff Field_ORDER_def

section \<open>The instance evaluated\<close>

lemma exampleHash_pair:
  "exampleHash [Field_from x, Field_from y] = Field_from (x + 3 * y + 1)"
  by (simp add: exampleHash_def Field_add_from Field_mul_from)

lemma example_Poseidon: "Poseidon_hash exampleBackend = exampleHash"
  by (simp add: exampleBackend_def)

lemma example_witness_empty:
  "getWitness exampleBackend exampleTree (Suc 0) = [(False, Field_from 0), (True, Field_from 1)]"
  by (simp add: getWitness_def exampleTree_def MerkleTree_new_def EMPTY_def Let_def
      example_Poseidon exampleHash_pair)

section \<open>Witnesses recompute roots\<close>

text \<open>
  Folding the witness of a leaf index over the node on its path gives the node further up;
  over the whole depth, the root. Storing a leaf changes no sibling on the leaf's own path.
\<close>

lemma div_pow_Suc: "(i::nat) div 2 ^ level div 2 = i div 2 ^ Suc level"
proof -
  have "i div 2 ^ Suc level = i div (2 ^ level * 2)" by (simp add: mult.commute)
  also have "\<dots> = i div 2 ^ level div 2" by (rule div_mult2_eq)
  finally show ?thesis by simp
qed

lemma calculateRoot_witnessFrom:
  "calculateRoot L (witnessFrom L lv level n index) (getNode L lv level index)
     = getNode L lv (level + n) (index div 2 ^ n)"
proof (induction n arbitrary: level index)
  case 0
  show ?case by simp
next
  case (Suc n)
  have parent: "Poseidon_hash L
        (if index mod 2 = 0
         then [getNode L lv level index, getNode L lv level (index + 1)]
         else [getNode L lv level (index - 1), getNode L lv level index])
      = getNode L lv (Suc level) (index div 2)"
  proof (cases "index mod 2 = 0")
    case True
    then have "2 * (index div 2) = index" by presburger
    with True show ?thesis by simp
  next
    case False
    then have "2 * (index div 2) = index - 1" and "2 * (index div 2) + 1 = index"
      by presburger+
    with False show ?thesis by simp
  qed
  have "calculateRoot L (witnessFrom L lv level (Suc n) index) (getNode L lv level index)
      = calculateRoot L (witnessFrom L lv (Suc level) n (index div 2))
          (Poseidon_hash L
            (if index mod 2 = 0
             then [getNode L lv level index, getNode L lv level (index + 1)]
             else [getNode L lv level (index - 1), getNode L lv level index]))"
    by (simp add: Let_def del: getNode.simps)
  also have "\<dots> = calculateRoot L (witnessFrom L lv (Suc level) n (index div 2))
      (getNode L lv (Suc level) (index div 2))"
    by (simp only: parent)
  also have "\<dots> = getNode L lv (Suc level + n) (index div 2 div 2 ^ n)"
    by (rule Suc.IH)
  also have "\<dots> = getNode L lv (level + Suc n) (index div 2 ^ Suc n)"
    by (simp add: div_mult2_eq del: getNode.simps)
  finally show ?case .
qed

lemma calculateRoot_getWitness:
  assumes "index < 2 ^ depth T"
  shows "calculateRoot L (getWitness L T index) (leaves T index) = getRoot L T"
  using calculateRoot_witnessFrom [of L "leaves T" 0 "depth T" index] assms
  by (simp add: getWitness_def getRoot_def)

lemma getNode_update_other:
  "k \<noteq> i div 2 ^ level \<Longrightarrow> getNode L (lv(i := v)) level k = getNode L lv level k"
proof (induction level arbitrary: k)
  case 0
  then show ?case by simp
next
  case (Suc level)
  define j where "j = i div 2 ^ level"
  have "i div 2 ^ Suc level = j div 2"
    unfolding j_def by (rule div_pow_Suc [symmetric])
  with Suc.prems have "k \<noteq> j div 2" by simp
  then have "2 * k \<noteq> j" and "2 * k + 1 \<noteq> j"
    by presburger+
  with Suc.IH show ?case by (simp add: j_def)
qed

lemma witnessFrom_update:
  "witnessFrom L (lv(i := v)) level n (i div 2 ^ level) = witnessFrom L lv level n (i div 2 ^ level)"
proof (induction n arbitrary: level)
  case 0
  show ?case by simp
next
  case (Suc n)
  have up: "i div 2 ^ level div 2 = i div 2 ^ Suc level"
    by (rule div_pow_Suc)
  have sib: "getNode L (lv(i := v)) level
        (if i div 2 ^ level mod 2 = 0 then i div 2 ^ level + 1 else i div 2 ^ level - 1)
      = getNode L lv level
        (if i div 2 ^ level mod 2 = 0 then i div 2 ^ level + 1 else i div 2 ^ level - 1)"
  proof (rule getNode_update_other)
    define j where "j = i div 2 ^ level"
    have "(if j mod 2 = 0 then j + 1 else j - 1) \<noteq> j"
      by presburger
    then show "(if i div 2 ^ level mod 2 = 0 then i div 2 ^ level + 1 else i div 2 ^ level - 1)
        \<noteq> i div 2 ^ level"
      unfolding j_def .
  qed
  show ?case
    by (simp only: witnessFrom.simps Let_def sib up Suc.IH [of "Suc level"])
qed

lemma getWitness_setLeaf:
  "getWitness L (setLeaf T index leaf) index = getWitness L T index"
  using witnessFrom_update [of L "leaves T" index leaf 0 "depth T"]
  by (simp add: getWitness_def setLeaf_def)

lemma calculateRoot_separates:
  assumes "inj_on (Poseidon_hash L) (set (hashInputs L w a) \<union> set (hashInputs L w b))"
    and "a \<noteq> b"
  shows "calculateRoot L w a \<noteq> calculateRoot L w b"
  using assms
proof (induction w arbitrary: a b)
  case Nil
  then show ?case by simp
next
  case (Cons step w)
  obtain isLeft sibling where step: "step = (isLeft, sibling)"
    by (cases step)
  let ?ia = "if isLeft then [a, sibling] else [sibling, a]"
  let ?ib = "if isLeft then [b, sibling] else [sibling, b]"
  from Cons.prems(2) have ne: "?ia \<noteq> ?ib" by simp
  from Cons.prems(1) step have inj: "inj_on (Poseidon_hash L)
      (insert ?ia (set (hashInputs L w (Poseidon_hash L ?ia))) \<union>
       insert ?ib (set (hashInputs L w (Poseidon_hash L ?ib))))"
    by (simp add: Let_def)
  then have "Poseidon_hash L ?ia \<noteq> Poseidon_hash L ?ib"
    using ne by (auto simp add: inj_on_def)
  moreover from inj have "inj_on (Poseidon_hash L)
      (set (hashInputs L w (Poseidon_hash L ?ia)) \<union> set (hashInputs L w (Poseidon_hash L ?ib)))"
    by (rule inj_on_subset) auto
  ultimately have "calculateRoot L w (Poseidon_hash L ?ia) \<noteq> calculateRoot L w (Poseidon_hash L ?ib)"
    using Cons.IH by blast
  with step show ?case by simp
qed

lemma empty_slot_check:
  assumes "index < 2 ^ depth T" and "leaves T index = EMPTY"
  shows "calculateRoot L (getWitness L T index) (Field_from 0) = getRoot L T"
  using calculateRoot_getWitness [OF assms(1), of L] assms(2)
  by (simp add: EMPTY_def)

lemma example_witness_set:
  "getWitness exampleBackend (setLeaf exampleTree (Suc 0) (Field_from 11)) (Suc 0)
     = [(False, Field_from 0), (True, Field_from 1)]"
  by (simp add: getWitness_setLeaf example_witness_empty)

lemma example_calc_empty:
  "calculateRoot exampleBackend [(False, Field_from 0), (True, Field_from 1)] (Field_from 0)
     = Field_from 5"
  by (simp add: example_Poseidon exampleHash_pair)

lemma example_calc_key:
  "calculateRoot exampleBackend [(False, Field_from 0), (True, Field_from 1)] (Field_from 11)
     = Field_from 38"
  by (simp add: example_Poseidon exampleHash_pair)

section \<open>The trusted-key check of \<^verbatim>\<open>performAddition\<close>\<close>

text \<open>
  Claim C1. For every verification key supplied to \<^verbatim>\<open>performAddition\<close>, the key check
  fails exactly when the Poseidon hash of the key's fields differs from
  \<open>trustedMulVkHash\<close>: the method fails with \<open>UntrustedKey\<close> if and only if the two
  hashes differ, whatever the field and the wrapped proof are.
\<close>

theorem performAddition_key_check:
  "(performAddition L field prf vk = Inl UntrustedKey) =
     (Poseidon_hash L (VerificationKey_toFields L vk) \<noteq> trustedMulVkHash)"
  by (simp add: performAddition_def Let_def verifyIf_def checkProof_def)

theorem performAddition_key_check_witness:
  "performAddition exampleBackend (Field_from 5) (dummy exampleBackend () (Field_from 0) 0)
       \<lparr>data = ''other'', hash = Field_from 7\<rparr> = Inl UntrustedKey
   \<and> performAddition exampleBackend (Field_from 5) (dummy exampleBackend () (Field_from 0) 0)
       \<lparr>data = ''mul'', hash = trustedMulVkHash\<rparr> \<noteq> Inl UntrustedKey"
  using performAddition_key_check [of exampleBackend "Field_from 5"
      "dummy exampleBackend () (Field_from 0) 0" "\<lparr>data = ''other'', hash = Field_from 7\<rparr>"]
    performAddition_key_check [of exampleBackend "Field_from 5"
      "dummy exampleBackend () (Field_from 0) 0" "\<lparr>data = ''mul'', hash = trustedMulVkHash\<rparr>"]
  by (simp add: exampleBackend_def exampleHash_def trustedMulVkHash_def Field_eval)

text \<open>
  Claim C10. The key check comes first and does not depend on the skip decision: for every
  key whose hash differs from \<open>trustedMulVkHash\<close>, \<^verbatim>\<open>performAddition\<close> fails with
  \<open>UntrustedKey\<close> for every wrapped proof, and so also in the base case, where the
  wrapped proof's public output is zero and its verification would be skipped.
\<close>

theorem performAddition_untrusted:
  assumes "Poseidon_hash L (VerificationKey_toFields L vk) \<noteq> trustedMulVkHash"
  shows "performAddition L field prf vk = Inl UntrustedKey
    \<and> performAddition L field (prf\<lparr>publicOutput := Field_from 0\<rparr>) vk = Inl UntrustedKey"
  using assms by (simp add: performAddition_def Let_def)

theorem performAddition_untrusted_witness:
  "Poseidon_hash exampleBackend
      (VerificationKey_toFields exampleBackend \<lparr>data = ''other'', hash = Field_from 7\<rparr>)
     \<noteq> trustedMulVkHash
   \<and> performAddition exampleBackend (Field_from 5) (dummy exampleBackend () (Field_from 0) 0)
       \<lparr>data = ''other'', hash = Field_from 7\<rparr> = Inl UntrustedKey"
proof -
  have h: "Poseidon_hash exampleBackend
      (VerificationKey_toFields exampleBackend \<lparr>data = ''other'', hash = Field_from 7\<rparr>)
     \<noteq> trustedMulVkHash"
    by (simp add: exampleBackend_def exampleHash_def trustedMulVkHash_def Field_eval)
  show ?thesis
    using h performAddition_untrusted [OF h, of "Field_from 5"
        "dummy exampleBackend () (Field_from 0) 0"]
    by simp
qed

section \<open>The skipped verification of \<^verbatim>\<open>performAddition\<close>\<close>




section \<open>The script of the addition program\<close>

text \<open>
  Claim C8. When the key of \<^verbatim>\<open>multiply\<close> hashes to the trusted hash and the proof of
  \<open>3 * 3\<close> verifies under it, the script succeeds: the base case on the dummy proof has
  public output 5, the multiplication has public output 9, and the second addition, on
  the proof of 9, has public output 13. Whenever \<^verbatim>\<open>performAddition\<close> returns, it returns
  the wrapped proof's public output plus the field.
\<close>

theorem allowlist_scenario:
  assumes trusted:
      "Poseidon_hash L (VerificationKey_toFields L (compile L ''multiply'')) = trustedMulVkHash"
    and valid:
      "verify L [] [Field_from 9]
         (prove L ''multiply'' ''performMultiplication'' [] [Field_from 9])
         (compile L ''multiply'')"
  shows "(\<exists>baseCase multiply1 add2.
            driver L = Inr (baseCase, multiply1, add2)
            \<and> publicOutput baseCase = Field_from 5
            \<and> publicOutput multiply1 = Field_from 9
            \<and> publicOutput add2 = Field_from 13)
    \<and> performMultiplication (Field_from 3) (Field_from 3) = Field_from 9
    \<and> (\<forall>field prf vk r.
          performAddition L field prf vk = Inr r \<longrightarrow> r = Field_add (publicOutput prf) field)"
proof -
  have nine: "Field_from 9 \<noteq> Field_from 0"
    by (simp add: Field_eval)
  have base: "performAddition L (Field_from 5) (dummy L () (Field_from 0) 0) (compile L ''multiply'')
      = Inr (Field_from 5)"
    using trusted
    by (simp add: performAddition_def Let_def verifyIf_def checkProof_def dummy_def
        DynamicMultiplyProof_maxProofsVerified_def Field_add_from)
  have mul: "performMultiplication (Field_from 3) (Field_from 3) = Field_from 9"
    by (simp add: performMultiplication_def Field_mul_from)
  have snd: "performAddition L (Field_from 4)
      (fromProof (multiply_performMultiplication L (Field_from 3) (Field_from 3)))
      (compile L ''multiply'') = Inr (Field_from 13)"
    using trusted valid nine
    by (simp add: performAddition_def Let_def verifyIf_def checkProof_def fromProof_def
        DynamicMultiplyProof_maxProofsVerified_def
        multiply_performMultiplication_def mul Field_add_from)
  have out1: "publicOutput (multiply_performMultiplication L (Field_from 3) (Field_from 3))
      = Field_from 9"
    by (simp add: multiply_performMultiplication_def Let_def mul)
  have run: "\<exists>baseCase multiply1 add2.
            driver L = Inr (baseCase, multiply1, add2)
            \<and> publicOutput baseCase = Field_from 5
            \<and> publicOutput multiply1 = Field_from 9
            \<and> publicOutput add2 = Field_from 13"
    by (simp add: driver_def Let_def add_performAddition_def base snd out1)
  have sum: "\<forall>field prf vk r.
          performAddition L field prf vk = Inr r \<longrightarrow> r = Field_add (publicOutput prf) field"
    by (auto simp add: performAddition_def Let_def split: if_splits option.splits)
  from run mul sum show ?thesis by simp
qed

theorem allowlist_scenario_witness:
  "Poseidon_hash exampleBackend
      (VerificationKey_toFields exampleBackend (compile exampleBackend ''multiply''))
     = trustedMulVkHash
   \<and> verify exampleBackend [] [Field_from 9]
       (prove exampleBackend ''multiply'' ''performMultiplication'' [] [Field_from 9])
       (compile exampleBackend ''multiply'')
   \<and> driver exampleBackend =
       Inr (\<lparr>publicInput = (), publicOutput = Field_from 5, proof_data = 1,
             maxProofsVerified = 1\<rparr>,
            \<lparr>publicInput = (), publicOutput = Field_from 9, proof_data = 1,
             maxProofsVerified = 0\<rparr>,
            \<lparr>publicInput = (), publicOutput = Field_from 13, proof_data = 1,
             maxProofsVerified = 1\<rparr>)"
proof -
  have t: "Poseidon_hash exampleBackend
      (VerificationKey_toFields exampleBackend (compile exampleBackend ''multiply''))
     = trustedMulVkHash"
    by (simp add: exampleBackend_def exampleHash_def)
  have v: "verify exampleBackend [] [Field_from 9]
       (prove exampleBackend ''multiply'' ''performMultiplication'' [] [Field_from 9])
       (compile exampleBackend ''multiply'')"
    by (simp add: exampleBackend_def)
  have p: "prove exampleBackend = (\<lambda>program method pubIn pubOut. 1)"
    by (simp add: exampleBackend_def)
  from allowlist_scenario [OF t v] obtain baseCase multiply1 add2 where
    run: "driver exampleBackend = Inr (baseCase, multiply1, add2)"
      "publicOutput baseCase = Field_from 5"
      "publicOutput multiply1 = Field_from 9"
      "publicOutput add2 = Field_from 13"
    by blast
  have shape: "proof_data baseCase = 1 \<and> proof_data multiply1 = 1 \<and> proof_data add2 = 1
      \<and> maxProofsVerified baseCase = 1 \<and> maxProofsVerified multiply1 = 0
      \<and> maxProofsVerified add2 = 1"
    using run(1)
    by (auto simp add: driver_def Let_def add_performAddition_def
        multiply_performMultiplication_def p split: sum.splits)
  show ?thesis
    using t v run shape by simp
qed

section \<open>Registering a key: \<^verbatim>\<open>addSideloadedProgram\<close>\<close>

text \<open>
  Claim C4. For every tree, leaf index and key: when the tree's witness of that index
  recomputes the input's root from the empty leaf, \<^verbatim>\<open>addSideloadedProgram\<close> succeeds and
  its new root is what the witness recomputes from the key's hash; the fresh witness of
  the index in the tree with the key's hash stored there recomputes the same root from
  the key's hash, and that root is the root of the updated tree.
\<close>

theorem addSideloadedProgram_insert:
  assumes "index < 2 ^ depth T"
    and "calculateRoot L (getWitness L T index) (Field_from 0) = treeRoot input"
  shows "addSideloadedProgram L input vk (getWitness L T index)
       = Inr \<lparr>treeRoot = calculateRoot L (getWitness L T index) (hash vk), state = state input\<rparr>
    \<and> calculateRoot L (getWitness L (setLeaf T index (hash vk)) index) (hash vk)
       = calculateRoot L (getWitness L T index) (hash vk)
    \<and> getRoot L (setLeaf T index (hash vk)) = calculateRoot L (getWitness L T index) (hash vk)"
proof -
  have run: "addSideloadedProgram L input vk (getWitness L T index)
       = Inr \<lparr>treeRoot = calculateRoot L (getWitness L T index) (hash vk), state = state input\<rparr>"
    using assms(2) by (simp add: addSideloadedProgram_def Let_def)
  have fresh: "getWitness L (setLeaf T index (hash vk)) index = getWitness L T index"
    by (rule getWitness_setLeaf)
  have "index < 2 ^ depth (setLeaf T index (hash vk))"
    using assms(1) by (simp add: setLeaf_def)
  then have "calculateRoot L (getWitness L (setLeaf T index (hash vk)) index)
        (leaves (setLeaf T index (hash vk)) index) = getRoot L (setLeaf T index (hash vk))"
    by (rule calculateRoot_getWitness)
  moreover have "leaves (setLeaf T index (hash vk)) index = hash vk"
    by (simp add: setLeaf_def)
  ultimately have root: "getRoot L (setLeaf T index (hash vk))
      = calculateRoot L (getWitness L T index) (hash vk)"
    by (simp only: fresh)
  from run fresh root show ?thesis by simp
qed

theorem addSideloadedProgram_insert_witness:
  "(1::nat) < 2 ^ depth exampleTree
   \<and> calculateRoot exampleBackend (getWitness exampleBackend exampleTree 1) (Field_from 0)
       = Field_from 5
   \<and> addSideloadedProgram exampleBackend \<lparr>treeRoot = Field_from 5, state = Field_from 0\<rparr>
         exampleKey (getWitness exampleBackend exampleTree 1)
       = Inr \<lparr>treeRoot = Field_from 38, state = Field_from 0\<rparr>
   \<and> calculateRoot exampleBackend
         (getWitness exampleBackend (setLeaf exampleTree 1 (Field_from 11)) 1) (Field_from 11)
       = Field_from 38
   \<and> getRoot exampleBackend (setLeaf exampleTree 1 (Field_from 11)) = Field_from 38"
proof -
  have i: "(1::nat) < 2 ^ depth exampleTree"
    by (simp add: exampleTree_def MerkleTree_new_def)
  have e: "calculateRoot exampleBackend (getWitness exampleBackend exampleTree 1) (Field_from 0)
      = treeRoot \<lparr>treeRoot = Field_from 5, state = Field_from 0\<rparr>"
    by (simp add: example_witness_empty example_Poseidon exampleHash_pair)
  have k: "hash exampleKey = Field_from 11"
    by (simp add: exampleKey_def)
  from addSideloadedProgram_insert [OF i e, of exampleKey] i e show ?thesis
    by (simp add: k example_witness_empty example_Poseidon exampleHash_pair)
qed

text \<open>
  Claim C5. Inserting at a slot that holds a value other than field zero fails with
  \<open>SlotOccupied\<close>, whatever the key is, the key whose hash is already stored there
  included. The input's root is the tree's root and the witness is the tree's witness of
  the slot; the hash is assumed free of collisions on the inputs of the two paths
  compared, from the stored leaf and from the empty leaf.
\<close>

theorem addSideloadedProgram_occupied:
  assumes "index < 2 ^ depth T"
    and "leaves T index \<noteq> Field_from 0"
    and "treeRoot input = getRoot L T"
    and "inj_on (Poseidon_hash L)
           (set (hashInputs L (getWitness L T index) (leaves T index))
            \<union> set (hashInputs L (getWitness L T index) (Field_from 0)))"
  shows "addSideloadedProgram L input vk (getWitness L T index) = Inl SlotOccupied"
proof -
  have "calculateRoot L (getWitness L T index) (leaves T index)
      \<noteq> calculateRoot L (getWitness L T index) (Field_from 0)"
    using assms(4) assms(2) by (rule calculateRoot_separates)
  then have "treeRoot input \<noteq> calculateRoot L (getWitness L T index) (Field_from 0)"
    using assms(1) assms(3) by (simp add: calculateRoot_getWitness)
  then show ?thesis
    by (simp add: addSideloadedProgram_def Let_def)
qed

theorem addSideloadedProgram_occupied_witness:
  "(1::nat) < 2 ^ depth (setLeaf exampleTree 1 (Field_from 11))
   \<and> leaves (setLeaf exampleTree 1 (Field_from 11)) 1 \<noteq> Field_from 0
   \<and> hash exampleKey = leaves (setLeaf exampleTree 1 (Field_from 11)) 1
   \<and> addSideloadedProgram exampleBackend
         \<lparr>treeRoot = getRoot exampleBackend (setLeaf exampleTree 1 (Field_from 11)),
          state = Field_from 0\<rparr>
         exampleKey (getWitness exampleBackend (setLeaf exampleTree 1 (Field_from 11)) 1)
       = Inl SlotOccupied"
proof -
  let ?T = "setLeaf exampleTree 1 (Field_from 11)"
  let ?input = "\<lparr>treeRoot = getRoot exampleBackend ?T, state = Field_from 0\<rparr>"
  have i: "(1::nat) < 2 ^ depth ?T"
    by (simp add: setLeaf_def exampleTree_def MerkleTree_new_def)
  have l: "leaves ?T 1 = Field_from 11"
    by (simp add: setLeaf_def)
  have n: "leaves ?T 1 \<noteq> Field_from 0"
    unfolding l by (simp add: Field_eval)
  have r: "treeRoot ?input = getRoot exampleBackend ?T"
    by simp
  have c: "inj_on (Poseidon_hash exampleBackend)
           (set (hashInputs exampleBackend (getWitness exampleBackend ?T 1) (leaves ?T 1))
            \<union> set (hashInputs exampleBackend (getWitness exampleBackend ?T 1) (Field_from 0)))"
    unfolding l
    by (simp add: example_witness_set Let_def example_Poseidon exampleHash_pair Field_eval)
  have k: "hash exampleKey = leaves ?T 1"
    by (simp add: exampleKey_def setLeaf_def)
  from addSideloadedProgram_occupied [OF i n r c, of exampleKey] i n k show ?thesis
    by simp
qed

text \<open>
  Claim C6. When \<^verbatim>\<open>addSideloadedProgram\<close> succeeds, the state component of its output is
  the state component of its input: only the root changes.
\<close>

theorem addSideloadedProgram_state:
  assumes "addSideloadedProgram L input vk merkleWitness = Inr output"
  shows "state output = state input"
  using assms by (auto simp add: addSideloadedProgram_def Let_def split: if_splits)

theorem addSideloadedProgram_state_witness:
  "addSideloadedProgram exampleBackend \<lparr>treeRoot = Field_from 5, state = Field_from 9\<rparr>
       exampleKey [(False, Field_from 0), (True, Field_from 1)]
     = Inr \<lparr>treeRoot = Field_from 38, state = Field_from 9\<rparr>
   \<and> state \<lparr>treeRoot = Field_from 38, state = Field_from 9\<rparr>
     = state \<lparr>treeRoot = Field_from 5, state = Field_from 9\<rparr>"
proof -
  have run: "addSideloadedProgram exampleBackend \<lparr>treeRoot = Field_from 5, state = Field_from 9\<rparr>
       exampleKey [(False, Field_from 0), (True, Field_from 1)]
     = Inr \<lparr>treeRoot = Field_from 38, state = Field_from 9\<rparr>"
    by (simp add: addSideloadedProgram_def Let_def example_calc_empty example_calc_key
        exampleKey_def del: calculateRoot.simps)
  from run addSideloadedProgram_state [OF run] show ?thesis
    by simp
qed

text \<open>
  Claim C9. \<^verbatim>\<open>addSideloadedProgram\<close> takes no previous proof, and one check decides it:
  it succeeds if and only if the witness recomputes the input's root from field zero, and
  fails with \<open>SlotOccupied\<close> otherwise. The state of the input is not constrained:
  replacing it by any value replaces the state of the output and changes nothing else.
\<close>

theorem addSideloadedProgram_guard:
  "((\<exists>output. addSideloadedProgram L input vk merkleWitness = Inr output)
      = (calculateRoot L merkleWitness (Field_from 0) = treeRoot input))
   \<and> ((addSideloadedProgram L input vk merkleWitness = Inl SlotOccupied)
      = (calculateRoot L merkleWitness (Field_from 0) \<noteq> treeRoot input))
   \<and> addSideloadedProgram L (input\<lparr>state := s\<rparr>) vk merkleWitness
      = map_sum id (\<lambda>output. output\<lparr>state := s\<rparr>) (addSideloadedProgram L input vk merkleWitness)"
  by (auto simp add: addSideloadedProgram_def Let_def)

theorem addSideloadedProgram_guard_witness:
  "(\<exists>output. addSideloadedProgram exampleBackend
        \<lparr>treeRoot = Field_from 5, state = Field_from 0\<rparr> exampleKey
        [(False, Field_from 0), (True, Field_from 1)] = Inr output)
   \<and> addSideloadedProgram exampleBackend
        \<lparr>treeRoot = Field_from 5, state = Field_from 12345\<rparr> exampleKey
        [(False, Field_from 0), (True, Field_from 1)]
      = map_sum id (\<lambda>output. output\<lparr>state := Field_from 12345\<rparr>)
          (addSideloadedProgram exampleBackend
             \<lparr>treeRoot = Field_from 5, state = Field_from 0\<rparr> exampleKey
             [(False, Field_from 0), (True, Field_from 1)])
   \<and> addSideloadedProgram exampleBackend
        \<lparr>treeRoot = Field_from 38, state = Field_from 0\<rparr> exampleKey
        [(False, Field_from 0), (True, Field_from 1)] = Inl SlotOccupied"
  using addSideloadedProgram_guard [of exampleBackend
      "\<lparr>treeRoot = Field_from 5, state = Field_from 0\<rparr>" exampleKey
      "[(False, Field_from 0), (True, Field_from 1)]" "Field_from 12345"]
    addSideloadedProgram_guard [of exampleBackend
      "\<lparr>treeRoot = Field_from 38, state = Field_from 0\<rparr>" exampleKey
      "[(False, Field_from 0), (True, Field_from 1)]" "Field_from 0"]
  by (simp add: example_Poseidon exampleHash_pair Field_eval)

section \<open>Validating a child proof: \<^verbatim>\<open>validateUsingTree\<close>\<close>




text \<open>
  Claim C3. When the previous proof's public output differs from the input state, in the
  root or in the state, \<^verbatim>\<open>validateUsingTree\<close> fails with \<open>ContinuityBroken\<close>, whatever
  the key, the witness and the dynamic proof are.
\<close>

theorem validateUsingTree_continuity:
  assumes "publicOutput previous \<noteq> input"
  shows "validateUsingTree L input previous vk merkleWitness prf = Inl ContinuityBroken"
proof -
  from assms have "state (publicOutput previous) \<noteq> state input
      \<or> treeRoot (publicOutput previous) \<noteq> treeRoot input"
    by (auto intro: MainProgramState.equality)
  then show ?thesis
    by (auto simp add: validateUsingTree_def)
qed

theorem validateUsingTree_continuity_witness:
  "validateUsingTree exampleBackend \<lparr>treeRoot = Field_from 38, state = Field_from 0\<rparr>
      \<lparr>publicInput = \<lparr>treeRoot = Field_from 5, state = Field_from 0\<rparr>,
       publicOutput = \<lparr>treeRoot = Field_from 5, state = Field_from 0\<rparr>, proof_data = 1,
       maxProofsVerified = 2\<rparr>
      exampleKey (getWitness exampleBackend (setLeaf exampleTree 1 (Field_from 11)) 1)
      \<lparr>publicInput = Field_from 0, publicOutput = Field_from 10, proof_data = 1,
       maxProofsVerified = 0\<rparr>
     = Inl ContinuityBroken"
  using validateUsingTree_continuity [of
      "\<lparr>publicInput = \<lparr>treeRoot = Field_from 5, state = Field_from 0\<rparr>,
        publicOutput = \<lparr>treeRoot = Field_from 5, state = Field_from 0\<rparr>, proof_data = 1,
        maxProofsVerified = 2\<rparr>"
      "\<lparr>treeRoot = Field_from 38, state = Field_from 0\<rparr>"
      exampleBackend exampleKey
      "getWitness exampleBackend (setLeaf exampleTree 1 (Field_from 11)) 1"
      "\<lparr>publicInput = Field_from 0, publicOutput = Field_from 10, proof_data = 1,
        maxProofsVerified = 0\<rparr>"]
  by (simp add: Field_eval)

end
